theory Spec2Isabelle
  imports Complex_Main
begin

section \<open>JavaScript values used by the calculator\<close>

text \<open>
  The calculator is written in JavaScript. Its numbers are modelled as exact reals
  together with the one non-numeric result the formulas can produce, \<open>NaN\<close>.
  The rounding of doubles beyond 2^53, the infinities and the negative zero are
  outside the model.
\<close>

datatype jsnum = Fin real | NaN

text \<open>The arithmetic operators \<open>*\<close>, \<open>+\<close> and \<open>/\<close> on numbers: \<open>NaN\<close> is absorbing.\<close>

fun mul :: "jsnum \<Rightarrow> jsnum \<Rightarrow> jsnum" where
  "mul (Fin a) (Fin b) = Fin (a * b)"
| "mul _ _ = NaN"

fun add :: "jsnum \<Rightarrow> jsnum \<Rightarrow> jsnum" where
  "add (Fin a) (Fin b) = Fin (a + b)"
| "add _ _ = NaN"

text \<open>The comparisons \<open>a < b\<close> and \<open>a > b\<close>: false as soon as one side is \<open>NaN\<close>.\<close>

fun lt :: "jsnum \<Rightarrow> jsnum \<Rightarrow> bool" where
  "lt (Fin a) (Fin b) = (a < b)"
| "lt _ _ = False"

fun gt :: "jsnum \<Rightarrow> jsnum \<Rightarrow> bool" where
  "gt (Fin a) (Fin b) = (a > b)"
| "gt _ _ = False"

text \<open>
  A configuration value is a number (select and number inputs), a boolean (checkboxes)
  or \<open>undefined\<close> (reading a property the object does not have).
\<close>

datatype jsval = JNum jsnum | JBool bool | JUndefined

text \<open>A configuration object \<open>params\<close>: property names to values.\<close>

type_synonym params = "string \<rightharpoonup> jsval"

text \<open>The property read \<open>params.key\<close>.\<close>

definition field :: "params \<Rightarrow> string \<Rightarrow> jsval" where
  "field p k = (case p k of None \<Rightarrow> JUndefined | Some v \<Rightarrow> v)"

text \<open>The conversion to a number that the arithmetic operators apply to an operand.\<close>

fun to_number :: "jsval \<Rightarrow> jsnum" where
  "to_number (JNum n) = n"
| "to_number (JBool b) = Fin (if b then 1 else 0)"
| "to_number JUndefined = NaN"

text \<open>The truthiness that \<open>c ? a : b\<close> tests.\<close>

fun truthy :: "jsval \<Rightarrow> bool" where
  "truthy (JNum (Fin x)) = (x \<noteq> 0)"
| "truthy (JNum NaN) = False"
| "truthy (JBool b) = b"
| "truthy JUndefined = False"

text \<open>\<open>params.key\<close> used as an operand of \<open>*\<close> or \<open>+\<close>.\<close>

definition num :: "params \<Rightarrow> string \<Rightarrow> jsnum" where
  "num p k = to_number (field p k)"

text \<open>A parameter with a default value: the default applies when the argument is omitted.\<close>

fun dflt :: "real \<Rightarrow> jsnum option \<Rightarrow> jsnum" where
  "dflt d None = Fin d"
| "dflt d (Some v) = v"

section \<open>The layer types: parameter counts and FLOPs\<close>

subsection \<open>Linear\<close>

text \<open>
  \<^verbatim>\<open>defaultParams: { input_dim: 512, output_dim: 256, use_bias: true }\<close>
  \<^verbatim>\<open>calculate: (params) => params.input_dim * params.output_dim + (params.use_bias ? params.output_dim : 0)\<close>
  \<^verbatim>\<open>calculateFLOPs: (params) => 2 * params.input_dim * params.output_dim\<close>
\<close>

definition linear_defaultParams :: params where
  "linear_defaultParams =
     [''input_dim'' \<mapsto> JNum (Fin 512), ''output_dim'' \<mapsto> JNum (Fin 256), ''use_bias'' \<mapsto> JBool True]"

definition linear_calculate :: "params \<Rightarrow> jsnum" where
  "linear_calculate p =
     add (mul (num p ''input_dim'') (num p ''output_dim''))
         (if truthy (field p ''use_bias'') then num p ''output_dim'' else Fin 0)"

definition linear_calculateFLOPs :: "params \<Rightarrow> jsnum" where
  "linear_calculateFLOPs p = mul (mul (Fin 2) (num p ''input_dim'')) (num p ''output_dim'')"

subsection \<open>Embedding\<close>

text \<open>
  \<^verbatim>\<open>defaultParams: { vocab_size: 10000, embedding_dim: 128 }\<close>
  \<^verbatim>\<open>calculate: (params) => params.vocab_size * params.embedding_dim\<close>
\<close>

definition embedding_defaultParams :: params where
  "embedding_defaultParams =
     [''vocab_size'' \<mapsto> JNum (Fin 10000), ''embedding_dim'' \<mapsto> JNum (Fin 128)]"

definition embedding_calculate :: "params \<Rightarrow> jsnum" where
  "embedding_calculate p = mul (num p ''vocab_size'') (num p ''embedding_dim'')"

subsection \<open>Conv2D\<close>

text \<open>
  \<^verbatim>\<open>defaultParams: { in_channels: 3, out_channels: 64, kernel_size: 3, use_bias: true }\<close>
  \<^verbatim>\<open>calculate: (params) => params.in_channels * params.out_channels * params.kernel_size
      * params.kernel_size + (params.use_bias ? params.out_channels : 0)\<close>
\<close>

definition conv2d_defaultParams :: params where
  "conv2d_defaultParams =
     [''in_channels'' \<mapsto> JNum (Fin 3), ''out_channels'' \<mapsto> JNum (Fin 64),
      ''kernel_size'' \<mapsto> JNum (Fin 3), ''use_bias'' \<mapsto> JBool True]"

definition conv2d_calculate :: "params \<Rightarrow> jsnum" where
  "conv2d_calculate p =
     add (mul (mul (mul (num p ''in_channels'') (num p ''out_channels'')) (num p ''kernel_size''))
              (num p ''kernel_size''))
         (if truthy (field p ''use_bias'') then num p ''out_channels'' else Fin 0)"

subsection \<open>Transformer and Attention\<close>

text \<open>
  \<^verbatim>\<open>transformer.defaultParams: { d_model: 512, num_heads: 8, d_ff: 2048, dropout: 0.1 }\<close>
  \<^verbatim>\<open>transformer.calculate: (params) => {
    const mha = 4 * (params.d_model * params.d_model + params.d_model);
    const ffn = params.d_model * params.d_ff + params.d_ff + params.d_ff * params.d_model + params.d_model;
    const ln = 2 * (params.d_model * 2);
    return mha + ffn + ln;
  }\<close>
  \<^verbatim>\<open>attention.defaultParams: { d_model: 512, num_heads: 8 }\<close>
  \<^verbatim>\<open>attention.calculate: (params) => { return 4 * (params.d_model * params.d_model + params.d_model); }\<close>
\<close>

definition transformer_defaultParams :: params where
  "transformer_defaultParams =
     [''d_model'' \<mapsto> JNum (Fin 512), ''num_heads'' \<mapsto> JNum (Fin 8),
      ''d_ff'' \<mapsto> JNum (Fin 2048), ''dropout'' \<mapsto> JNum (Fin 0.1)]"

definition transformer_calculate :: "params \<Rightarrow> jsnum" where
  "transformer_calculate p =
     (let mha = mul (Fin 4) (add (mul (num p ''d_model'') (num p ''d_model'')) (num p ''d_model''));
          ffn = add (add (add (mul (num p ''d_model'') (num p ''d_ff'')) (num p ''d_ff''))
                         (mul (num p ''d_ff'') (num p ''d_model'')))
                    (num p ''d_model'');
          ln = mul (Fin 2) (mul (num p ''d_model'') (Fin 2))
      in add (add mha ffn) ln)"

definition attention_defaultParams :: params where
  "attention_defaultParams = [''d_model'' \<mapsto> JNum (Fin 512), ''num_heads'' \<mapsto> JNum (Fin 8)]"

definition attention_calculate :: "params \<Rightarrow> jsnum" where
  "attention_calculate p =
     mul (Fin 4) (add (mul (num p ''d_model'') (num p ''d_model'')) (num p ''d_model''))"

subsection \<open>Layers without parameters\<close>

text \<open>
  Dropout, MaxPool2D, AvgPool2D, ReLU and Softmax: \<^verbatim>\<open>calculate: () => 0\<close>, with
  \<^verbatim>\<open>dropout.defaultParams: { rate: 0.1 }\<close>, \<^verbatim>\<open>maxpool2d.defaultParams: { kernel_size: 2 }\<close>,
  \<^verbatim>\<open>avgpool2d.defaultParams: { kernel_size: 2 }\<close> and \<^verbatim>\<open>defaultParams: {}\<close> for the last two.
\<close>

definition dropout_defaultParams :: params where
  "dropout_defaultParams = [''rate'' \<mapsto> JNum (Fin 0.1)]"

definition pool2d_defaultParams :: params where
  "pool2d_defaultParams = [''kernel_size'' \<mapsto> JNum (Fin 2)]"

subsection \<open>LSTM\<close>

text \<open>
  \<^verbatim>\<open>defaultParams: { input_size: 128, hidden_size: 256, num_layers: 1, bidirectional: false }\<close>
  \<^verbatim>\<open>calculate: (params) => {
    const direction = params.bidirectional ? 2 : 1;
    let total = 0;
    for (let layer = 0; layer < params.num_layers; layer++) {
      const input_dim = layer === 0 ? params.input_size : params.hidden_size * direction;
      const params_per_direction = 4 * (input_dim * params.hidden_size
        + params.hidden_size * params.hidden_size + params.hidden_size * 2);
      total += params_per_direction * direction;
    }
    return total;
  }\<close>
  The loop variable \<open>total\<close> is written \<open>total'\<close>.
\<close>

definition lstm_defaultParams :: params where
  "lstm_defaultParams =
     [''input_size'' \<mapsto> JNum (Fin 128), ''hidden_size'' \<mapsto> JNum (Fin 256),
      ''num_layers'' \<mapsto> JNum (Fin 1), ''bidirectional'' \<mapsto> JBool False]"

function lstm_loop :: "params \<Rightarrow> real \<Rightarrow> nat \<Rightarrow> jsnum \<Rightarrow> jsnum" where
  "lstm_loop p direction layer total' =
     (if lt (Fin (real layer)) (num p ''num_layers'') then
        (let input_dim = (if layer = 0 then num p ''input_size''
                          else mul (num p ''hidden_size'') (Fin direction));
             params_per_direction =
               mul (Fin 4)
                 (add (add (mul input_dim (num p ''hidden_size''))
                           (mul (num p ''hidden_size'') (num p ''hidden_size'')))
                      (mul (num p ''hidden_size'') (Fin 2)))
         in lstm_loop p direction (Suc layer) (add total' (mul params_per_direction (Fin direction))))
      else total')"
  by pat_completeness auto
termination
proof (relation "measure (\<lambda>(p, direction, layer, total').
         case num p ''num_layers'' of Fin n \<Rightarrow> nat \<lceil>n\<rceil> - layer | NaN \<Rightarrow> 0)")
  show "wf (measure (\<lambda>(p, direction, layer, total').
         case num p ''num_layers'' of Fin n \<Rightarrow> nat \<lceil>n\<rceil> - layer | NaN \<Rightarrow> 0))"
    by simp
next
  fix p :: params and direction :: real and layer :: nat and total' x xa :: jsnum
  assume "lt (Fin (real layer)) (num p ''num_layers'')"
  then obtain n where n: "num p ''num_layers'' = Fin n" "real layer < n"
    by (cases "num p ''num_layers''") auto
  then have "layer < nat \<lceil>n\<rceil>"
    by linarith
  with n show "((p, direction, Suc layer, add total' (mul xa (Fin direction))), (p, direction, layer, total'))
     \<in> measure (\<lambda>(p, direction, layer, total').
         case num p ''num_layers'' of Fin n \<Rightarrow> nat \<lceil>n\<rceil> - layer | NaN \<Rightarrow> 0)"
    by simp
qed

declare lstm_loop.simps [simp del]

definition lstm_calculate :: "params \<Rightarrow> jsnum" where
  "lstm_calculate p =
     (let direction = (if truthy (field p ''bidirectional'') then 2 else 1)
      in lstm_loop p direction 0 (Fin 0))"

subsection \<open>GRU\<close>

text \<open>
  \<^verbatim>\<open>defaultParams: { input_size: 128, hidden_size: 256, num_layers: 1, bidirectional: false }\<close>
  \<^verbatim>\<open>calculate: (params) => {
    const direction = params.bidirectional ? 2 : 1;
    let total = 0;
    for (let layer = 0; layer < params.num_layers; layer++) {
      const input_dim = layer === 0 ? params.input_size : params.hidden_size * direction;
      const params_per_direction = 3 * (input_dim * params.hidden_size
        + params.hidden_size * params.hidden_size + params.hidden_size * 2);
      total += params_per_direction * direction;
    }
    return total;
  }\<close>
  The same loop as the LSTM's, with 3 gates instead of 4.
\<close>

definition gru_defaultParams :: params where
  "gru_defaultParams =
     [''input_size'' \<mapsto> JNum (Fin 128), ''hidden_size'' \<mapsto> JNum (Fin 256),
      ''num_layers'' \<mapsto> JNum (Fin 1), ''bidirectional'' \<mapsto> JBool False]"

function gru_loop :: "params \<Rightarrow> real \<Rightarrow> nat \<Rightarrow> jsnum \<Rightarrow> jsnum" where
  "gru_loop p direction layer total' =
     (if lt (Fin (real layer)) (num p ''num_layers'') then
        (let input_dim = (if layer = 0 then num p ''input_size''
                          else mul (num p ''hidden_size'') (Fin direction));
             params_per_direction =
               mul (Fin 3)
                 (add (add (mul input_dim (num p ''hidden_size''))
                           (mul (num p ''hidden_size'') (num p ''hidden_size'')))
                      (mul (num p ''hidden_size'') (Fin 2)))
         in gru_loop p direction (Suc layer) (add total' (mul params_per_direction (Fin direction))))
      else total')"
  by pat_completeness auto
termination
proof (relation "measure (\<lambda>(p, direction, layer, total').
         case num p ''num_layers'' of Fin n \<Rightarrow> nat \<lceil>n\<rceil> - layer | NaN \<Rightarrow> 0)")
  show "wf (measure (\<lambda>(p, direction, layer, total').
         case num p ''num_layers'' of Fin n \<Rightarrow> nat \<lceil>n\<rceil> - layer | NaN \<Rightarrow> 0))"
    by simp
next
  fix p :: params and direction :: real and layer :: nat and total' x xa :: jsnum
  assume "lt (Fin (real layer)) (num p ''num_layers'')"
  then obtain n where n: "num p ''num_layers'' = Fin n" "real layer < n"
    by (cases "num p ''num_layers''") auto
  then have "layer < nat \<lceil>n\<rceil>"
    by linarith
  with n show "((p, direction, Suc layer, add total' (mul xa (Fin direction))), (p, direction, layer, total'))
     \<in> measure (\<lambda>(p, direction, layer, total').
         case num p ''num_layers'' of Fin n \<Rightarrow> nat \<lceil>n\<rceil> - layer | NaN \<Rightarrow> 0)"
    by simp
qed

declare gru_loop.simps [simp del]

definition gru_calculate :: "params \<Rightarrow> jsnum" where
  "gru_calculate p =
     (let direction = (if truthy (field p ''bidirectional'') then 2 else 1)
      in gru_loop p direction 0 (Fin 0))"

subsection \<open>The term of one recurrent layer\<close>

text \<open>
  The parameters one layer of a recurrent kind adds: \<open>dir * gates * (input_dim * h + h * h + 2 * h)\<close>,
  where the input dimension is the configured one for layer 0 and \<open>h * dir\<close> after.
\<close>

definition rnn_layer :: "real \<Rightarrow> real \<Rightarrow> real \<Rightarrow> real \<Rightarrow> nat \<Rightarrow> real" where
  "rnn_layer gates inp h dir l = dir * (gates * ((if l = 0 then inp else h * dir) * h + h * h + 2 * h))"

subsection \<open>BatchNorm and LayerNorm\<close>

text \<open>
  \<^verbatim>\<open>batchnorm.defaultParams: { num_features: 128 }\<close>
  \<^verbatim>\<open>batchnorm.calculate: (params) => params.num_features * 2\<close>
  \<^verbatim>\<open>batchnorm.calculateFLOPs: (params, batchSize = 32, spatialSize = 1) =>
      params.num_features * batchSize * spatialSize * 4\<close>
  \<^verbatim>\<open>layernorm.defaultParams: { normalized_shape: 512 }\<close>
  \<^verbatim>\<open>layernorm.calculate: (params) => params.normalized_shape * 2\<close>
  \<^verbatim>\<open>layernorm.calculateFLOPs: (params, batchSize = 32, seqLen = 512) =>
      params.normalized_shape * batchSize * seqLen * 5\<close>
\<close>

definition batchnorm_defaultParams :: params where
  "batchnorm_defaultParams = [''num_features'' \<mapsto> JNum (Fin 128)]"

definition batchnorm_calculate :: "params \<Rightarrow> jsnum" where
  "batchnorm_calculate p = mul (num p ''num_features'') (Fin 2)"

definition batchnorm_calculateFLOPs :: "params \<Rightarrow> jsnum option \<Rightarrow> jsnum option \<Rightarrow> jsnum" where
  "batchnorm_calculateFLOPs p batchSize spatialSize =
     mul (mul (mul (num p ''num_features'') (dflt 32 batchSize)) (dflt 1 spatialSize)) (Fin 4)"

definition layernorm_defaultParams :: params where
  "layernorm_defaultParams = [''normalized_shape'' \<mapsto> JNum (Fin 512)]"

definition layernorm_calculate :: "params \<Rightarrow> jsnum" where
  "layernorm_calculate p = mul (num p ''normalized_shape'') (Fin 2)"

definition layernorm_calculateFLOPs :: "params \<Rightarrow> jsnum option \<Rightarrow> jsnum option \<Rightarrow> jsnum" where
  "layernorm_calculateFLOPs p batchSize seqLen =
     mul (mul (mul (num p ''normalized_shape'') (dflt 32 batchSize)) (dflt 512 seqLen)) (Fin 5)"

section \<open>The memory estimate\<close>

text \<open>
  \<^verbatim>\<open>const bytesPerParam = { 'fp32': 4, 'fp16': 2, 'bf16': 2, 'int8': 1 };\<close>
  The table is an object literal, so the read \<^verbatim>\<open>bytesPerParam[precision]\<close> finds the four
  properties of the literal, then the properties every object inherits from
  \<open>Object.prototype\<close> (built-in functions, and \<open>Object.prototype\<close> itself under
  \<open>__proto__\<close>), and is \<open>undefined\<close> for every other name.
\<close>

datatype lookup = Own real | Inherited string | Absent

definition object_prototype :: "string list" where
  "object_prototype =
     [''constructor'', ''hasOwnProperty'', ''isPrototypeOf'', ''propertyIsEnumerable'',
      ''toLocaleString'', ''toString'', ''valueOf'', ''__proto__'',
      ''__defineGetter__'', ''__defineSetter__'', ''__lookupGetter__'', ''__lookupSetter__'']"

definition bytesPerParam :: "string \<Rightarrow> lookup" where
  "bytesPerParam k =
     (if k = ''fp32'' then Own 4
      else if k = ''fp16'' then Own 2
      else if k = ''bf16'' then Own 2
      else if k = ''int8'' then Own 1
      else if k \<in> set object_prototype then Inherited k
      else Absent)"

text \<open>Truthiness of what the read returns: a function or an object is truthy.\<close>

fun lookup_truthy :: "lookup \<Rightarrow> bool" where
  "lookup_truthy (Own b) = (b \<noteq> 0)"
| "lookup_truthy (Inherited k) = True"
| "lookup_truthy Absent = False"

text \<open>\<^verbatim>\<open>v || d\<close>\<close>

definition or_else :: "lookup \<Rightarrow> real \<Rightarrow> lookup" where
  "or_else v d = (if lookup_truthy v then v else Own d)"

text \<open>
  What the read returns as an operand of \<open>*\<close>: the inherited functions and
  \<open>Object.prototype\<close> convert to \<open>NaN\<close>.
\<close>

fun lookup_number :: "lookup \<Rightarrow> jsnum" where
  "lookup_number (Own b) = Fin b"
| "lookup_number (Inherited k) = NaN"
| "lookup_number Absent = NaN"

text \<open>A string parameter with a default value.\<close>

fun dflt_str :: "string \<Rightarrow> string option \<Rightarrow> string" where
  "dflt_str d None = d"
| "dflt_str d (Some v) = v"

text \<open>
  \<^verbatim>\<open>export const calculateMemory = (totalParams, mode = 'inference', precision = 'fp32') => {
    const bytes = bytesPerParam[precision] || 4;
    if (mode === 'inference') { return totalParams * bytes; }
    else { return totalParams * bytes * 4; }
  };\<close>
\<close>

definition bytes :: "string option \<Rightarrow> lookup" where
  "bytes precision = or_else (bytesPerParam (dflt_str ''fp32'' precision)) 4"

definition calculateMemory :: "jsnum \<Rightarrow> string option \<Rightarrow> string option \<Rightarrow> jsnum" where
  "calculateMemory totalParams mode precision =
     (if dflt_str ''inference'' mode = ''inference''
      then mul totalParams (lookup_number (bytes precision))
      else mul (mul totalParams (lookup_number (bytes precision))) (Fin 4))"


section \<open>The model: layer instances and the registry\<close>

text \<open>
  The keys of \<^verbatim>\<open>LAYER_TYPES\<close>. A layer's \<open>type\<close> is always one of them: layers are
  created by \<^verbatim>\<open>addLayer\<close> only, from the entries of the registry.
\<close>

datatype kind = Embedding | Linear | Conv2d | Lstm | Transformer | Batchnorm | Dropout
  | Maxpool2d | Avgpool2d | Layernorm | Gru | Attention | Relu | Softmax

text \<open>\<^verbatim>\<open>LAYER_TYPES[type].defaultParams\<close> and \<^verbatim>\<open>LAYER_TYPES[type].calculate(params)\<close>.\<close>

fun defaultParams :: "kind \<Rightarrow> params" where
  "defaultParams Embedding = embedding_defaultParams"
| "defaultParams Linear = linear_defaultParams"
| "defaultParams Conv2d = conv2d_defaultParams"
| "defaultParams Lstm = lstm_defaultParams"
| "defaultParams Transformer = transformer_defaultParams"
| "defaultParams Batchnorm = batchnorm_defaultParams"
| "defaultParams Dropout = dropout_defaultParams"
| "defaultParams Maxpool2d = pool2d_defaultParams"
| "defaultParams Avgpool2d = pool2d_defaultParams"
| "defaultParams Layernorm = layernorm_defaultParams"
| "defaultParams Gru = gru_defaultParams"
| "defaultParams Attention = attention_defaultParams"
| "defaultParams Relu = Map.empty"
| "defaultParams Softmax = Map.empty"

fun calculate :: "kind \<Rightarrow> params \<Rightarrow> jsnum" where
  "calculate Embedding p = embedding_calculate p"
| "calculate Linear p = linear_calculate p"
| "calculate Conv2d p = conv2d_calculate p"
| "calculate Lstm p = lstm_calculate p"
| "calculate Transformer p = transformer_calculate p"
| "calculate Batchnorm p = batchnorm_calculate p"
| "calculate Dropout p = Fin 0"
| "calculate Maxpool2d p = Fin 0"
| "calculate Avgpool2d p = Fin 0"
| "calculate Layernorm p = layernorm_calculate p"
| "calculate Gru p = gru_calculate p"
| "calculate Attention p = attention_calculate p"
| "calculate Relu p = Fin 0"
| "calculate Softmax p = Fin 0"

text \<open>
  A layer instance \<^verbatim>\<open>{ id, type, params }\<close>. The field \<open>id\<close> is written \<open>id'\<close>.
\<close>

record layer =
  id' :: real
  type :: kind
  params :: params

text \<open>
  \<^verbatim>\<open>const addLayer = (type) => {
    const newLayer = { id: Date.now() + Math.random(), type, params: { ...layerConfig.defaultParams } };
    setModelLayers(prev => [...prev, newLayer]);
  }\<close>
  The clock and the random number are the argument \<open>fresh\<close>.
\<close>

definition addLayer :: "real \<Rightarrow> kind \<Rightarrow> layer list \<Rightarrow> layer list" where
  "addLayer fresh ty prev = prev @ [\<lparr>id' = fresh, type = ty, params = defaultParams ty\<rparr>]"

text \<open>\<^verbatim>\<open>Math.floor\<close> and \<^verbatim>\<open>Math.max\<close>.\<close>

fun math_floor :: "jsnum \<Rightarrow> jsnum" where
  "math_floor (Fin x) = Fin (real_of_int \<lfloor>x\<rfloor>)"
| "math_floor NaN = NaN"

fun math_max :: "jsnum \<Rightarrow> jsnum \<Rightarrow> jsnum" where
  "math_max (Fin a) (Fin b) = Fin (max a b)"
| "math_max _ _ = NaN"

text \<open>
  \<^verbatim>\<open>const updateLayerParam = (id, paramKey, value) => {
    setModelLayers(prev => prev.map(layer => {
      if (layer.id !== id) return layer;
      let validatedValue = value;
      if (typeof value === 'number' && paramKey !== 'rate') {
        validatedValue = Math.max(1, Math.floor(value));
      }
      return { ...layer, params: { ...layer.params, [paramKey]: validatedValue } };
    }));
  }\<close>
\<close>

fun validatedValue :: "string \<Rightarrow> jsval \<Rightarrow> jsval" where
  "validatedValue paramKey (JNum v) =
     (if paramKey \<noteq> ''rate'' then JNum (math_max (Fin 1) (math_floor v)) else JNum v)"
| "validatedValue paramKey v = v"

definition updateLayerParam :: "real \<Rightarrow> string \<Rightarrow> jsval \<Rightarrow> layer list \<Rightarrow> layer list" where
  "updateLayerParam i paramKey v prev =
     map (\<lambda>layer. if id' layer \<noteq> i then layer
                  else layer\<lparr>params := (params layer)(paramKey \<mapsto> validatedValue paramKey v)\<rparr>)
         prev"

section \<open>The model summary\<close>

text \<open>
  \<^verbatim>\<open>const totalParams = modelLayers.reduce((total, layer) => {
    const config = LAYER_TYPES[layer.type];
    return total + config.calculate(layer.params);
  }, 0);\<close>
\<close>

definition totalParams :: "layer list \<Rightarrow> jsnum" where
  "totalParams modelLayers =
     foldl (\<lambda>total' layer. add total' (calculate (type layer) (params layer))) (Fin 0) modelLayers"

text \<open>
  The division \<open>a / b\<close>. A division by zero gives an infinity in JavaScript (\<open>NaN\<close> for
  \<open>0 / 0\<close>); the infinities are outside the model, and the one division of the program
  stands under the guard \<open>totalParams > 0\<close>.
\<close>

fun quot :: "jsnum \<Rightarrow> jsnum \<Rightarrow> jsnum" where
  "quot (Fin a) (Fin b) = (if b = 0 then NaN else Fin (a / b))"
| "quot _ _ = NaN"

text \<open>
  The text of a percentage: either the digits \<^verbatim>\<open>x.toFixed(1)\<close> of a number, kept as the
  number they format, or a string literal.
\<close>

datatype display = ToFixed1 jsnum | Literal string

text \<open>
  \<^verbatim>\<open>{modelLayers.map((layer, idx) => {
    const config = LAYER_TYPES[layer.type];
    const layerParams = config.calculate(layer.params);
    const percentage = totalParams > 0 ? ((layerParams / totalParams) * 100).toFixed(1) : '0.0';
    return ( <div key={layer.id}> ... {t.layer} {idx + 1} ... {percentage}% ... </div> );
  })}\<close>
\<close>

definition percentage :: "jsnum \<Rightarrow> jsnum \<Rightarrow> display" where
  "percentage layerParams total' =
     (if gt total' (Fin 0) then ToFixed1 (mul (quot layerParams total') (Fin 100))
      else Literal ''0.0'')"

record distribution_row =
  row_key :: real
  row_number :: nat
  row_percentage :: display

definition layerDistribution :: "layer list \<Rightarrow> distribution_row list" where
  "layerDistribution modelLayers =
     map (\<lambda>(idx, layer).
            \<lparr>row_key = id' layer, row_number = idx + 1,
             row_percentage =
               percentage (calculate (type layer) (params layer)) (totalParams modelLayers)\<rparr>)
         (enumerate 0 modelLayers)"

section \<open>The grouping pass of the code generator\<close>

text \<open>
  Modelled from the spec: the grouping pass of the code generator
  (\<^verbatim>\<open>src/utils/codeGenerator.js\<close>, which is not among the source files at hand).
  A group is a run of consecutive layers with the same kind and the same configuration;
  it records the kind, the shared configuration, the member count and the members'
  identities.
\<close>

record group =
  group_kind :: kind
  group_config :: params
  group_count :: nat
  group_members :: "real list"

text \<open>
  Modelled from the spec: a group begins at a layer, with that layer as its first member.
\<close>

definition new_group :: "layer \<Rightarrow> group" where
  "new_group l =
     \<lparr>group_kind = type l, group_config = params l, group_count = 1, group_members = [id' l]\<rparr>"

text \<open>
  Modelled from the spec: a single left-to-right scan. The current group accumulates
  consecutive instances while kind and configuration are equal to those of the group's
  first member; on a mismatch, or at the end of the sequence, the group is closed and
  emitted, and a new group begins at the mismatching instance.
\<close>

fun group_scan :: "group \<Rightarrow> layer list \<Rightarrow> group list" where
  "group_scan g [] = [g]"
| "group_scan g (l # ls) =
     (if type l = group_kind g \<and> params l = group_config g
      then group_scan
             (g\<lparr>group_count := group_count g + 1, group_members := group_members g @ [id' l]\<rparr>) ls
      else g # group_scan (new_group l) ls)"

text \<open>Modelled from the spec: the pass \<open>group\<close> over a sequence of layer instances.\<close>

fun group_pass :: "layer list \<Rightarrow> group list" where
  "group_pass [] = []"
| "group_pass (l # ls) = group_scan (new_group l) ls"

text \<open>
  The runs of layers the groups stand for: the sequence cut into consecutive pieces of
  the groups' member counts.
\<close>

fun chop :: "nat list \<Rightarrow> 'a list \<Rightarrow> 'a list list" where
  "chop [] xs = []"
| "chop (n # ns) xs = take n xs # chop ns (drop n xs)"

definition group_runs :: "layer list \<Rightarrow> layer list list" where
  "group_runs ls = chop (map group_count (group_pass ls)) ls"

text \<open>
  A group stands for a run of layers: the run is not empty, has the group's member count
  and identities, and every layer of the run has the group's kind and configuration.
\<close>

definition stands_for :: "group \<Rightarrow> layer list \<Rightarrow> bool" where
  "stands_for g run \<longleftrightarrow>
     run \<noteq> [] \<and> length run = group_count g \<and> map id' run = group_members g
     \<and> (\<forall>l \<in> set run. type l = group_kind g \<and> params l = group_config g)"

section \<open>Example models\<close>

text \<open>A Linear layer followed by an LSTM layer, both as \<^verbatim>\<open>addLayer\<close> creates them.\<close>

definition two_layers :: "layer list" where
  "two_layers = addLayer 2 Lstm (addLayer 1 Linear [])"

text \<open>A model whose layers have no parameters: its total is 0.\<close>

definition no_parameters :: "layer list" where
  "no_parameters = addLayer 2 Dropout (addLayer 1 Relu [])"

text \<open>
  Three Linear layers; the output dimension of the second and the third is then set to
  512, so the first differs from them in its configuration only.
\<close>

definition three_linear :: "layer list" where
  "three_linear =
     updateLayerParam 3 ''output_dim'' (JNum (Fin 512))
       (updateLayerParam 2 ''output_dim'' (JNum (Fin 512))
         (addLayer 3 Linear (addLayer 2 Linear (addLayer 1 Linear []))))"

section \<open>Properties\<close>

subsection \<open>The recurrent layers\<close>

lemma lstm_loop_sum:
  assumes "field p ''input_size'' = JNum (Fin inp)"
    and "field p ''hidden_size'' = JNum (Fin h)"
    and "field p ''num_layers'' = JNum (Fin (real n))"
  shows "layer \<le> n \<Longrightarrow>
    lstm_loop p dir layer (Fin t) = Fin (t + (\<Sum>l = layer..<n. rnn_layer 4 inp h dir l))"
proof (induction "n - layer" arbitrary: layer t)
  case 0
  then have "layer = n" by simp
  then show ?case using assms by (simp add: lstm_loop.simps num_def)
next
  case (Suc k)
  then have less: "layer < n" and k: "k = n - Suc layer" by simp_all
  have "lstm_loop p dir layer (Fin t)
      = lstm_loop p dir (Suc layer) (Fin (t + rnn_layer 4 inp h dir layer))"
    using assms less by (subst lstm_loop.simps) (simp add: num_def rnn_layer_def algebra_simps)
  also have "\<dots> = Fin (t + rnn_layer 4 inp h dir layer
                        + (\<Sum>l = Suc layer..<n. rnn_layer 4 inp h dir l))"
    using Suc.hyps(1) [OF k] less by simp
  also have "\<dots> = Fin (t + (\<Sum>l = layer..<n. rnn_layer 4 inp h dir l))"
    using less by (simp add: sum.atLeast_Suc_lessThan)
  finally show ?case .
qed

lemma lstm_calculate_sum:
  assumes "field p ''input_size'' = JNum (Fin inp)"
    and "field p ''hidden_size'' = JNum (Fin h)"
    and "field p ''num_layers'' = JNum (Fin (real n))"
    and "field p ''bidirectional'' = JBool b"
  shows "lstm_calculate p = Fin (\<Sum>l = 0..<n. rnn_layer 4 inp h (if b then 2 else 1) l)"
  using lstm_loop_sum [OF assms(1-3), of 0 _ 0] assms(4) by (simp add: lstm_calculate_def)

lemma gru_loop_sum:
  assumes "field p ''input_size'' = JNum (Fin inp)"
    and "field p ''hidden_size'' = JNum (Fin h)"
    and "field p ''num_layers'' = JNum (Fin (real n))"
  shows "layer \<le> n \<Longrightarrow>
    gru_loop p dir layer (Fin t) = Fin (t + (\<Sum>l = layer..<n. rnn_layer 3 inp h dir l))"
proof (induction "n - layer" arbitrary: layer t)
  case 0
  then have "layer = n" by simp
  then show ?case using assms by (simp add: gru_loop.simps num_def)
next
  case (Suc k)
  then have less: "layer < n" and k: "k = n - Suc layer" by simp_all
  have "gru_loop p dir layer (Fin t)
      = gru_loop p dir (Suc layer) (Fin (t + rnn_layer 3 inp h dir layer))"
    using assms less by (subst gru_loop.simps) (simp add: num_def rnn_layer_def algebra_simps)
  also have "\<dots> = Fin (t + rnn_layer 3 inp h dir layer
                        + (\<Sum>l = Suc layer..<n. rnn_layer 3 inp h dir l))"
    using Suc.hyps(1) [OF k] less by simp
  also have "\<dots> = Fin (t + (\<Sum>l = layer..<n. rnn_layer 3 inp h dir l))"
    using less by (simp add: sum.atLeast_Suc_lessThan)
  finally show ?case .
qed

lemma gru_calculate_sum:
  assumes "field p ''input_size'' = JNum (Fin inp)"
    and "field p ''hidden_size'' = JNum (Fin h)"
    and "field p ''num_layers'' = JNum (Fin (real n))"
    and "field p ''bidirectional'' = JBool b"
  shows "gru_calculate p = Fin (\<Sum>l = 0..<n. rnn_layer 3 inp h (if b then 2 else 1) l)"
  using gru_loop_sum [OF assms(1-3), of 0 _ 0] assms(4) by (simp add: gru_calculate_def)

text \<open>
  C2. For every LSTM configuration (input size \<open>inp\<close>, hidden size \<open>h\<close>, \<open>n\<close> layers,
  bidirectional flag \<open>b\<close> giving \<open>dir = 2\<close> or 1), the parameter count is the sum over the
  layers \<open>0..n-1\<close> of \<open>dir * 4 * (input_dim * h + h\<^sup>2 + 2 * h)\<close>, where \<open>input_dim\<close> is
  \<open>inp\<close> for layer 0 and \<open>h * dir\<close> for every later layer.
\<close>

theorem lstm_parameter_count:
  assumes "field p ''input_size'' = JNum (Fin inp)"
    and "field p ''hidden_size'' = JNum (Fin h)"
    and "field p ''num_layers'' = JNum (Fin (real n))"
    and "field p ''bidirectional'' = JBool b"
    and "dir = (if b then 2 else 1)"
  shows "lstm_calculate p =
     Fin (\<Sum>l = 0..<n. dir * 4 * ((if l = 0 then inp else h * dir) * h + h\<^sup>2 + 2 * h))"
proof -
  have "lstm_calculate p = Fin (\<Sum>l = 0..<n. rnn_layer 4 inp h dir l)"
    unfolding assms(5) by (rule lstm_calculate_sum [OF assms(1-4)])
  also have "(\<Sum>l = 0..<n. rnn_layer 4 inp h dir l)
      = (\<Sum>l = 0..<n. dir * 4 * ((if l = 0 then inp else h * dir) * h + h\<^sup>2 + 2 * h))"
    by (rule sum.cong) (simp_all add: rnn_layer_def power2_eq_square)
  finally show ?thesis .
qed

text \<open>LSTM(input = 128, hidden = 256, layers = 1, bidirectional = false): 395,264 parameters.\<close>

theorem lstm_parameter_count_witness:
  "lstm_calculate lstm_defaultParams = Fin 395264"
  using lstm_parameter_count [of lstm_defaultParams 128 256 1 False 1]
  by (simp add: lstm_defaultParams_def field_def)

text \<open>
  C3. For every configuration with one layer, the GRU parameter count is 0.75 times
  the LSTM parameter count of the same configuration.
\<close>

theorem gru_is_three_quarters_of_lstm:
  assumes "field p ''input_size'' = JNum (Fin inp)"
    and "field p ''hidden_size'' = JNum (Fin h)"
    and "field p ''num_layers'' = JNum (Fin 1)"
    and "field p ''bidirectional'' = JBool b"
  shows "gru_calculate p = mul (Fin 0.75) (lstm_calculate p) \<and> lstm_calculate p \<noteq> NaN"
proof -
  have n: "field p ''num_layers'' = JNum (Fin (real 1))"
    using assms(3) by simp
  show ?thesis
    using lstm_calculate_sum [OF assms(1,2) n assms(4)] gru_calculate_sum [OF assms(1,2) n assms(4)]
    by (simp add: rnn_layer_def)
qed

theorem gru_is_three_quarters_of_lstm_witness:
  "lstm_calculate lstm_defaultParams = Fin 395264
   \<and> gru_calculate lstm_defaultParams = Fin 296448"
  using gru_is_three_quarters_of_lstm [of lstm_defaultParams 128 256 False]
    lstm_calculate_sum [of lstm_defaultParams 128 256 1 False]
  by (simp add: lstm_defaultParams_def field_def rnn_layer_def)

text \<open>
  C7. For every Linear configuration with input dimension \<open>i\<close>, output dimension \<open>out\<close>
  and bias flag \<open>b\<close>, the parameter count is \<open>i * out + out\<close> when the flag is set and
  \<open>i * out\<close> otherwise, and the FLOPs are \<open>2 * i * out\<close> whatever the flag.
\<close>

theorem linear_params_and_flops:
  assumes "field p ''input_dim'' = JNum (Fin i)"
    and "field p ''output_dim'' = JNum (Fin out)"
    and "field p ''use_bias'' = JBool b"
  shows "linear_calculate p = Fin (if b then i * out + out else i * out)
       \<and> linear_calculateFLOPs p = Fin (2 * i * out)"
  using assms by (simp add: linear_calculate_def linear_calculateFLOPs_def num_def)

text \<open>Linear(in = 512, out = 256, bias = true): 131,328 parameters and 262,144 FLOPs.\<close>

theorem linear_params_and_flops_witness:
  "linear_calculate linear_defaultParams = Fin 131328
   \<and> linear_calculateFLOPs linear_defaultParams = Fin 262144"
  using linear_params_and_flops [of linear_defaultParams 512 256 True]
  by (simp add: linear_defaultParams_def field_def)

subsection \<open>The model summary and the configuration update\<close>

text \<open>
  C6. The rows of the layer distribution follow the model's order (row \<open>n\<close> is layer
  \<open>n\<close>, numbered \<open>n + 1\<close>), and the percentage of a layer with parameter count \<open>c\<close> in a
  model of \<open>t\<close> parameters is \<open>100 * c / t\<close> (shown with one decimal) when \<open>t > 0\<close>, and
  the text \<open>0.0\<close> when \<open>t = 0\<close>: nothing is divided by zero.
\<close>

theorem layer_distribution_percentage:
  assumes "totalParams ls = Fin t" and "n < length ls"
    and "calculate (type (ls ! n)) (params (ls ! n)) = Fin c"
  shows "map row_key (layerDistribution ls) = map id' ls
       \<and> row_key (layerDistribution ls ! n) = id' (ls ! n)
       \<and> row_number (layerDistribution ls ! n) = n + 1
       \<and> row_percentage (layerDistribution ls ! n)
           = (if t > 0 then ToFixed1 (Fin (100 * c / t)) else Literal ''0.0'')"
proof -
  have "map row_key (layerDistribution ls) = map (id' \<circ> snd) (enumerate 0 ls)"
    by (simp add: layerDistribution_def case_prod_unfold comp_def)
  also have "\<dots> = map id' ls"
    by (simp flip: map_map)
  finally have "map row_key (layerDistribution ls) = map id' ls" .
  then show ?thesis
    using assms by (simp add: layerDistribution_def nth_enumerate_eq percentage_def)
qed

lemma lstm_default: "lstm_calculate lstm_defaultParams = Fin 395264"
  using lstm_calculate_sum [of lstm_defaultParams 128 256 1 False]
  by (simp add: lstm_defaultParams_def field_def rnn_layer_def)

lemma linear_default: "linear_calculate linear_defaultParams = Fin 131328"
  by (simp add: linear_calculate_def linear_defaultParams_def num_def field_def)

lemma total_two_layers: "totalParams two_layers = Fin 526592"
  by (simp add: two_layers_def addLayer_def totalParams_def lstm_default linear_default)

lemma total_no_parameters: "totalParams no_parameters = Fin 0"
  by (simp add: no_parameters_def addLayer_def totalParams_def)

text \<open>
  A Linear layer of 131,328 parameters and an LSTM layer of 395,264: the shares are
  those counts over 526,592, in the model's order. A model of 0 parameters shows \<open>0.0\<close>.
\<close>

theorem layer_distribution_percentage_witness:
  "row_percentage (layerDistribution two_layers ! 0) = ToFixed1 (Fin (100 * 131328 / 526592))
   \<and> row_percentage (layerDistribution two_layers ! 1) = ToFixed1 (Fin (100 * 395264 / 526592))
   \<and> map row_key (layerDistribution two_layers) = [1, 2]
   \<and> row_percentage (layerDistribution no_parameters ! 0) = Literal ''0.0''"
  using layer_distribution_percentage [of two_layers 526592 0 131328]
    layer_distribution_percentage [of two_layers 526592 1 395264]
    layer_distribution_percentage [of no_parameters 0 0 0]
    total_two_layers total_no_parameters
  by (simp add: two_layers_def no_parameters_def addLayer_def lstm_default linear_default)

text \<open>
  C8. Updating field \<open>k\<close> of the layers with identity \<open>i\<close> to the number \<open>x\<close> stores
  \<open>max 1 (floor x)\<close> when \<open>k\<close> is not \<open>rate\<close> and \<open>x\<close> itself when it is; the other fields
  of those layers, their identity and kind, and every other layer stay as they were.
\<close>

theorem updateLayerParam_clamps:
  assumes "n < length ls"
  shows "length (updateLayerParam i k (JNum (Fin x)) ls) = length ls
    \<and> (if id' (ls ! n) \<noteq> i then updateLayerParam i k (JNum (Fin x)) ls ! n = ls ! n
        else id' (updateLayerParam i k (JNum (Fin x)) ls ! n) = i
           \<and> type (updateLayerParam i k (JNum (Fin x)) ls ! n) = type (ls ! n)
           \<and> params (updateLayerParam i k (JNum (Fin x)) ls ! n) k
                = Some (JNum (Fin (if k \<noteq> ''rate'' then max 1 (real_of_int \<lfloor>x\<rfloor>) else x)))
           \<and> (\<forall>k'. k' \<noteq> k \<longrightarrow>
                params (updateLayerParam i k (JNum (Fin x)) ls ! n) k' = params (ls ! n) k'))"
  using assms by (simp add: updateLayerParam_def)

text \<open>
  Setting \<open>output_dim\<close> of layer 1 to 300.7 stores 300 and leaves \<open>input_dim\<close> and
  layer 2 alone; setting \<open>input_dim\<close> to 0 stores 1; a \<open>rate\<close> of 0.35 is stored as it is.
\<close>

theorem updateLayerParam_clamps_witness:
  "params (updateLayerParam 1 ''output_dim'' (JNum (Fin 300.7)) two_layers ! 0) ''output_dim''
     = Some (JNum (Fin 300))
   \<and> params (updateLayerParam 1 ''output_dim'' (JNum (Fin 300.7)) two_layers ! 0) ''input_dim''
     = Some (JNum (Fin 512))
   \<and> updateLayerParam 1 ''output_dim'' (JNum (Fin 300.7)) two_layers ! 1 = two_layers ! 1
   \<and> params (updateLayerParam 1 ''input_dim'' (JNum (Fin 0)) two_layers ! 0) ''input_dim''
     = Some (JNum (Fin 1))
   \<and> params (updateLayerParam 2 ''rate'' (JNum (Fin 0.35)) no_parameters ! 1) ''rate''
     = Some (JNum (Fin 0.35))"
  using updateLayerParam_clamps [of 0 two_layers 1 "''output_dim''" "300.7"]
    updateLayerParam_clamps [of 1 two_layers 1 "''output_dim''" "300.7"]
    updateLayerParam_clamps [of 0 two_layers 1 "''input_dim''" 0]
    updateLayerParam_clamps [of 1 no_parameters 2 "''rate''" "0.35"]
  by (simp add: two_layers_def no_parameters_def addLayer_def linear_defaultParams_def)

subsection \<open>The grouping pass\<close>

lemma group_scan_runs:
  assumes "stands_for g r"
  shows "list_all2 stands_for (group_scan g ls) (chop (map group_count (group_scan g ls)) (r @ ls))
       \<and> concat (chop (map group_count (group_scan g ls)) (r @ ls)) = r @ ls"
  using assms
proof (induction ls arbitrary: g r)
  case Nil
  then show ?case by (simp add: stands_for_def)
next
  case (Cons l ls)
  show ?case
  proof (cases "type l = group_kind g \<and> params l = group_config g")
    case True
    let ?g = "g\<lparr>group_count := group_count g + 1, group_members := group_members g @ [id' l]\<rparr>"
    have "stands_for ?g (r @ [l])"
      using Cons.prems True by (simp add: stands_for_def)
    from Cons.IH [OF this] True show ?thesis by simp
  next
    case False
    have "stands_for (new_group l) [l]"
      by (simp add: stands_for_def new_group_def)
    moreover have "group_scan g (l # ls) = g # group_scan (new_group l) ls"
      using False by auto
    moreover have "take (group_count g) (r @ l # ls) = r"
      and "drop (group_count g) (r @ l # ls) = l # ls"
      using Cons.prems by (simp_all add: stands_for_def)
    ultimately show ?thesis
      using Cons.IH [of "new_group l" "[l]"] Cons.prems by simp
  qed
qed

text \<open>
  C9. The groups of a sequence stand, in order, for consecutive runs that make up the
  sequence, and every layer of a group's run has the group's kind and the group's
  configuration: two layers of one kind with different configurations are never in one
  group.
\<close>

theorem grouping_keeps_kind_and_config:
  "list_all2 stands_for (group_pass ls) (group_runs ls) \<and> concat (group_runs ls) = ls"
proof (cases ls)
  case Nil
  then show ?thesis by (simp add: group_runs_def)
next
  case (Cons l ls')
  have "stands_for (new_group l) [l]"
    by (simp add: stands_for_def new_group_def)
  from group_scan_runs [OF this, of ls'] Cons show ?thesis
    by (simp add: group_runs_def)
qed

lemma changed_output_dim:
  "linear_defaultParams \<noteq> linear_defaultParams(''output_dim'' \<mapsto> JNum (Fin 512))"
proof
  assume "linear_defaultParams = linear_defaultParams(''output_dim'' \<mapsto> JNum (Fin 512))"
  then have "linear_defaultParams ''output_dim''
      = (linear_defaultParams(''output_dim'' \<mapsto> JNum (Fin 512))) ''output_dim''"
    by simp
  then show False by (simp add: linear_defaultParams_def)
qed

lemma three_linear_eq:
  "three_linear =
     [\<lparr>id' = 1, type = Linear, params = linear_defaultParams\<rparr>,
      \<lparr>id' = 2, type = Linear, params = linear_defaultParams(''output_dim'' \<mapsto> JNum (Fin 512))\<rparr>,
      \<lparr>id' = 3, type = Linear, params = linear_defaultParams(''output_dim'' \<mapsto> JNum (Fin 512))\<rparr>]"
  by (simp add: three_linear_def addLayer_def updateLayerParam_def)

text \<open>
  Three Linear layers, the first with another output dimension than the two after it:
  the first is a group of its own, the other two are one group.
\<close>

theorem grouping_keeps_kind_and_config_witness:
  "map group_count (group_pass three_linear) = [1, 2]
   \<and> map group_members (group_pass three_linear) = [[1], [2, 3]]
   \<and> map (map id') (group_runs three_linear) = [[1], [2, 3]]
   \<and> list_all2 stands_for (group_pass three_linear) (group_runs three_linear)"
  using grouping_keeps_kind_and_config [of three_linear] changed_output_dim
  by (simp add: three_linear_eq group_runs_def new_group_def)

subsection \<open>The normalization layers and the memory estimate\<close>

text \<open>
  C1, as the code has it. With the context omitted, BatchNorm's FLOPs are
  \<open>num_features * 32 * 1 * 4\<close> (batch size 32, spatial size 1) and LayerNorm's FLOPs are
  \<open>normalized_shape * 32 * 512 * 5\<close>: LayerNorm's second default is the sequence length
  512, not a multiplier of 1.
\<close>

theorem norm_flops_defaults:
  assumes "field p ''num_features'' = JNum (Fin f)"
    and "field q ''normalized_shape'' = JNum (Fin g)"
  shows "batchnorm_calculateFLOPs p None None = Fin (f * 32 * 1 * 4)
       \<and> layernorm_calculateFLOPs q None None = Fin (g * 32 * 512 * 5)"
  using assms by (simp add: batchnorm_calculateFLOPs_def layernorm_calculateFLOPs_def num_def)

theorem norm_flops_defaults_witness:
  "batchnorm_calculateFLOPs batchnorm_defaultParams None None = Fin 16384
   \<and> layernorm_calculateFLOPs layernorm_defaultParams None None = Fin 41943040"
  using norm_flops_defaults [of batchnorm_defaultParams 128 layernorm_defaultParams 512]
  by (simp add: batchnorm_defaultParams_def layernorm_defaultParams_def field_def)

text \<open>
  C1 as stated fails for LayerNorm: with \<open>normalized_shape = 512\<close> and the context
  omitted the FLOPs are 41,943,040, not \<open>512 * 32 * 1 * 5 = 81,920\<close>.
\<close>

theorem layernorm_flops_counterexample:
  "layernorm_calculateFLOPs layernorm_defaultParams None None \<noteq> Fin (512 * 32 * 1 * 5)"
  by (simp add: layernorm_calculateFLOPs_def layernorm_defaultParams_def num_def field_def)

text \<open>
  C4. For every total parameter count and every precision key, the training estimate is
  4 times the inference estimate: inference is \<open>tp * bytes\<close> and training is
  \<open>tp * bytes * 4\<close>.
\<close>

theorem memory_training_4x_inference:
  "calculateMemory tp (Some ''training'') precision
     = mul (calculateMemory tp (Some ''inference'') precision) (Fin 4)
   \<and> calculateMemory tp (Some ''inference'') precision
     = mul tp (lookup_number (bytes precision))
   \<and> calculateMemory tp (Some ''training'') precision
     = mul (mul tp (lookup_number (bytes precision))) (Fin 4)"
  by (simp add: calculateMemory_def)

theorem memory_training_4x_inference_witness:
  "calculateMemory (Fin 1000000) (Some ''inference'') (Some ''fp16'') = Fin 2000000
   \<and> calculateMemory (Fin 1000000) (Some ''training'') (Some ''fp16'') = Fin 8000000"
  using memory_training_4x_inference [of "Fin 1000000" "Some ''fp16''"]
  by (simp add: bytes_def bytesPerParam_def or_else_def)

text \<open>
  The fallback of the precision table, where it works: a key that is neither in the
  table nor inherited from \<open>Object.prototype\<close> gives 4 bytes.
\<close>

lemma bytes_table:
  "bytes (Some ''fp32'') = Own 4" "bytes (Some ''fp16'') = Own 2"
  "bytes (Some ''bf16'') = Own 2" "bytes (Some ''int8'') = Own 1"
  by (simp_all add: bytes_def bytesPerParam_def or_else_def)

lemma bytes_fallback:
  assumes "k \<notin> {''fp32'', ''fp16'', ''bf16'', ''int8''}" and "k \<notin> set object_prototype"
  shows "bytes (Some k) = Own 4"
  using assms by (simp add: bytes_def bytesPerParam_def or_else_def)

lemma memory_tf32:
  "calculateMemory (Fin 1000000) (Some ''inference'') (Some ''tf32'') = Fin 4000000"
  by (simp add: calculateMemory_def bytes_def bytesPerParam_def or_else_def object_prototype_def)

text \<open>
  C5 fails on the code for a precision key that names a property inherited from
  \<open>Object.prototype\<close>: \<^verbatim>\<open>calculateMemory(1000000, 'inference', 'toString')\<close> reads the
  built-in function \<open>toString\<close> from the table, which is truthy, so the fallback
  \<^verbatim>\<open>|| 4\<close> does not apply and the product is \<open>NaN\<close>, not 4,000,000.
\<close>

theorem memory_inherited_key_not_fallback:
  "bytesPerParam ''toString'' = Inherited ''toString''
   \<and> calculateMemory (Fin 1000000) (Some ''inference'') (Some ''toString'') = NaN
   \<and> calculateMemory (Fin 1000000) (Some ''inference'') (Some ''toString'') \<noteq> Fin 4000000"
  by (simp add: calculateMemory_def bytes_def bytesPerParam_def or_else_def object_prototype_def)

text \<open>
  C10. Every mode string other than \<open>inference\<close> takes the training branch: the
  estimate is \<open>tp * bytes * 4\<close>.
\<close>

theorem memory_other_mode_is_training:
  assumes "mode \<noteq> ''inference''"
  shows "calculateMemory tp (Some mode) precision
           = mul (mul tp (lookup_number (bytes precision))) (Fin 4)"
  using assms by (simp add: calculateMemory_def)

theorem memory_other_mode_is_training_witness:
  "calculateMemory (Fin 1000000) (Some ''eval'') (Some ''fp32'') = Fin 16000000"
  using memory_other_mode_is_training [of "''eval''" "Fin 1000000" "Some ''fp32''"]
  by (simp add: bytes_def bytesPerParam_def or_else_def)

end
